theory Spec2Isabelle
  imports Complex_Main "HOL-Library.AList" "HOL-Library.Log_Nat"
begin

section \<open>Values, errors and events\<close>

text \<open>
  The library is Python. Exceptions are values of \<open>error\<close>; a computation that may raise
  returns \<open>error + 'a\<close> with \<open>Inl\<close> for the exception. A Python float is the
  \<open>real\<close> number it stands for; the arithmetic on floats rounds as binary64 does (see
  below). Overflow, subnormal numbers and NaN are outside the model.
\<close>

datatype error =
  AttributeError | KeyError | ValueError | ZeroDivisionError | OtherError string

datatype pyval = VNone | VBool bool | VInt int | VNum real | VStr string

text \<open>
  The third argument of a notification is the object that owns the changed property:
  the \<open>Pod\<close> (given by its name) or the pod's current \<open>Mode\<close> (pod name, mode name).
\<close>

datatype obj = Pod_obj string | Mode_obj string string

type_synonym event = "string \<times> pyval \<times> obj"

section \<open>Strings\<close>

text \<open>\<open>str.lower()\<close> on ASCII text: only the letters A to Z change.\<close>

definition lower_char :: "char \<Rightarrow> char" where
  "lower_char c =
     (case map_of (zip ''ABCDEFGHIJKLMNOPQRSTUVWXYZ'' ''abcdefghijklmnopqrstuvwxyz'') c of
        None \<Rightarrow> c
      | Some l \<Rightarrow> l)"

definition lower :: "string \<Rightarrow> string" where
  "lower s = map lower_char s"

fun startswith :: "string \<Rightarrow> string \<Rightarrow> bool" where
  "startswith s [] = True"
| "startswith [] (p # ps) = False"
| "startswith (c # cs) (p # ps) = (c = p \<and> startswith cs ps)"

section \<open>Shell-style matching (Python's fnmatch)\<close>

text \<open>
  \<open>fnmatch.fnmatch\<close> belongs to Python's standard library, not to this repository. It is
  modelled from the library's documentation: \<open>*\<close> matches everything, \<open>?\<close> matches any
  single character, \<open>[seq]\<close> matches any character in \<open>seq\<close>, \<open>[!seq]\<close> any character
  not in \<open>seq\<close>; a \<open>[\<close> with no closing \<open>]\<close> stands for itself and there is no way to
  quote a meta-character. As in the library, the pattern is first translated into a list
  of pieces, and the whole name has to match. \<open>os.path.normcase\<close> is the one of POSIX,
  which changes nothing.
\<close>

datatype piece = Star | Any | Lit char | Class bool string

fun class_end :: "string \<Rightarrow> (string \<times> string) option" where
  "class_end [] = None"
| "class_end (c # cs) =
     (if c = CHR '']'' then Some ([], cs)
      else (case class_end cs of None \<Rightarrow> None | Some (b, r) \<Rightarrow> Some (c # b, r)))"

text \<open>
  What follows a \<open>[\<close>: an optional \<open>!\<close>, an optional \<open>]\<close> that belongs to the set, then
  everything up to the next \<open>]\<close>. The result is (negated, set, rest of the pattern).
\<close>

definition bracket :: "string \<Rightarrow> (bool \<times> string \<times> string) option" where
  "bracket p =
     (let neg = (case p of [] \<Rightarrow> False | c # cs \<Rightarrow> c = CHR ''!'');
          p1 = (if neg then tl p else p);
          lead = (case p1 of [] \<Rightarrow> False | c # cs \<Rightarrow> c = CHR '']'');
          p2 = (if lead then tl p1 else p1)
      in (case class_end p2 of
            None \<Rightarrow> None
          | Some (b, r) \<Rightarrow> Some (neg, (if lead then CHR '']'' # b else b), r)))"

lemma class_end_length: "class_end p = Some (b, r) \<Longrightarrow> length r < length p"
  by (induction p arbitrary: b r) (auto split: if_splits option.splits)

lemma bracket_length: "bracket p = Some (n, b, r) \<Longrightarrow> length r \<le> length p"
  by (auto simp: bracket_def Let_def split: option.splits list.splits if_splits
      dest!: class_end_length)

function translate :: "string \<Rightarrow> piece list" where
  "translate [] = []"
| "translate (c # p) =
     (if c = CHR ''*'' then Star # translate p
      else if c = CHR ''?'' then Any # translate p
      else if c = CHR ''['' then
        (case bracket p of
           None \<Rightarrow> Lit c # translate p
         | Some (neg, b, r) \<Rightarrow> Class neg b # translate r)
      else Lit c # translate p)"
  by pat_completeness auto
termination
  by (relation "measure length") (auto dest: bracket_length)

fun in_class :: "char \<Rightarrow> string \<Rightarrow> bool" where
  "in_class c (a # d # b # rest) =
     (if d = CHR ''-''
      then ((of_char a :: nat) \<le> of_char c \<and> (of_char c :: nat) \<le> of_char b) \<or> in_class c rest
      else c = a \<or> in_class c (d # b # rest))"
| "in_class c (a # rest) = (c = a \<or> in_class c rest)"
| "in_class c [] = False"

fun pieces_match :: "piece list \<Rightarrow> string \<Rightarrow> bool" where
  "pieces_match [] s = (s = [])"
| "pieces_match (Star # ps) s =
     (pieces_match ps s \<or> (case s of [] \<Rightarrow> False | c # cs \<Rightarrow> pieces_match (Star # ps) cs))"
| "pieces_match (Any # ps) s = (case s of [] \<Rightarrow> False | c # cs \<Rightarrow> pieces_match ps cs)"
| "pieces_match (Lit a # ps) s = (case s of [] \<Rightarrow> False | c # cs \<Rightarrow> c = a \<and> pieces_match ps cs)"
| "pieces_match (Class neg b # ps) s =
     (case s of [] \<Rightarrow> False | c # cs \<Rightarrow> (in_class c b \<noteq> neg) \<and> pieces_match ps cs)"

definition fnmatchcase :: "string \<Rightarrow> string \<Rightarrow> bool" where
  "fnmatchcase nm pat = pieces_match (translate pat) nm"

definition normcase :: "string \<Rightarrow> string" where
  "normcase s = s"

definition fnmatch :: "string \<Rightarrow> string \<Rightarrow> bool" where
  "fnmatch nm pat = fnmatchcase (normcase nm) (normcase pat)"

section \<open>The notification router (class Notify)\<close>

text \<open>
  \<open>Notify.__callbacks\<close> is a dict from a pattern to a dict from a guid to a callback.
  Both are association lists in insertion order. A callback is user code: all the router
  sees of it is whether a call returns (\<open>None\<close>) or raises (\<open>Some e\<close>). The guid that
  \<open>uuid4\<close> draws is an argument of \<open>bind\<close>.
\<close>

type_synonym guid = nat

type_synonym callback = "string \<Rightarrow> pyval \<Rightarrow> obj \<Rightarrow> error option"

type_synonym callbacks = "(string \<times> (guid \<times> callback) list) list"

definition bind :: "callbacks \<Rightarrow> guid \<Rightarrow> string \<Rightarrow> callback \<Rightarrow> callbacks \<times> guid" where
  "bind cbs g evt cb =
     (let inner = (case map_of cbs evt of None \<Rightarrow> [] | Some d \<Rightarrow> d)
      in (AList.update evt (AList.update g cb inner) cbs, g))"

definition unbind :: "callbacks \<Rightarrow> guid \<Rightarrow> callbacks" where
  "unbind cbs g = map (\<lambda>(evt, d). (evt, AList.delete g d)) cbs"

text \<open>
  \<open>process_callbacks\<close> calls the callbacks of one pattern in turn. There is no
  \<open>try\<close> around the call, so the first exception ends the loop. The result lists the
  guids of the callbacks that were called (the raising one included) and the exception,
  if any.
\<close>

fun process_callbacks ::
  "(guid \<times> callback) list \<Rightarrow> string \<Rightarrow> pyval \<Rightarrow> obj \<Rightarrow> guid list \<times> error option" where
  "process_callbacks [] event v ob = ([], None)"
| "process_callbacks ((g, cb) # rest) event v ob =
     (case cb event v ob of
        Some e \<Rightarrow> ([g], Some e)
      | None \<Rightarrow> (case process_callbacks rest event v ob of (called, r) \<Rightarrow> (g # called, r)))"

text \<open>
  The test of \<open>Notify.__call__\<close> on one registered pattern \<open>evt\<close>: the glob branch
  when the pattern holds \<open>*\<close> or \<open>?\<close> and \<open>fnmatch\<close> accepts, otherwise the comparison
  \<open>evt.lower() == event\<close>, in which only the pattern is lowered.
\<close>

definition matches :: "string \<Rightarrow> string \<Rightarrow> bool" where
  "matches evt event =
     (if (CHR ''*'' \<in> set evt \<or> CHR ''?'' \<in> set evt) \<and> fnmatch event evt then True
      else if lower evt = event then True
      else False)"

fun Notify_call ::
  "callbacks \<Rightarrow> string \<Rightarrow> pyval \<Rightarrow> obj \<Rightarrow> guid list \<times> error option" where
  "Notify_call [] event v ob = ([], None)"
| "Notify_call ((evt, d) # rest) event v ob =
     (if matches evt event then
        (case process_callbacks d event v ob of
           (called, Some e) \<Rightarrow> (called, Some e)
         | (called, None) \<Rightarrow>
             (case Notify_call rest event v ob of (called', r) \<Rightarrow> (called @ called', r)))
      else Notify_call rest event v ob)"

subsection \<open>Client.bind\<close>



subsection \<open>Pod.bind\<close>

text \<open>
  The second branch of \<open>Pod.bind\<close> tests membership in \<open>property_names[6:]\<close>, which is
  empty for a tuple of six names, so it is never taken.
\<close>

definition pod_property_names :: "string list" where
  "pod_property_names =
     [''mode'', ''power'', ''room_temp'', ''room_humidity'', ''battery_voltage'', ''*'']"

definition Pod_bind ::
  "callbacks \<Rightarrow> guid \<Rightarrow> string \<Rightarrow> string \<Rightarrow> callback \<Rightarrow> error + (callbacks \<times> guid)" where
  "Pod_bind cbs g pod_name property_name cb =
     (if property_name \<in> set (take 6 pod_property_names)
      then Inr (bind cbs g (pod_name @ ''.'' @ property_name) cb)
      else if property_name \<in> set (drop 6 pod_property_names)
      then Inr (bind cbs g (pod_name @ ''.*.'' @ property_name) cb)
      else Inl ValueError)"

section \<open>The device, its state and its measurements\<close>

text \<open>
  What the poll loop reads of a \<open>Pod\<close>: its name, the name of its current \<open>Mode\<close>
  object (\<open>self._mode.name\<close>), the keys of \<open>self.capabilities['modes']\<close>, and the two
  cached unit flags \<open>__fnht\<close> and \<open>__clcs\<close>, which start as \<open>None\<close>.

  \<open>acState\<close> and the measurements are JSON objects from the server. A field is
  \<open>None\<close> when its key is absent; a present field has the type the library's
  docstrings give it.
\<close>

record pod =
  name :: string
  mode_name :: string
  capabilities_modes :: "string list"
  fnht :: "bool option"
  clcs :: "bool option"

record ac_state =
  mode :: "string option"
  swing :: "string option"
  targetTemperature :: "int option"
  fanLevel :: "string option"
  on :: "bool option"
  temperatureUnit :: "string option"

record measurements =
  temperature :: "real option"
  humidity :: "real option"
  batteryVoltage :: "real option"

section \<open>Binary64 arithmetic\<close>

text \<open>
  Python's \<open>+\<close>, \<open>-\<close>, \<open>*\<close> and \<open>/\<close> on floats return the exact result rounded to the
  nearest binary64 number, ties to the even significand. For \<open>x\<close> other than 0,
  \<open>exponent x\<close> is the integer \<open>e\<close> with \<open>2 ^ e \<le> \<bar>x\<bar> < 2 ^ (e + 1)\<close>, the binary64
  numbers of that size are the multiples of \<open>2 ^ (e - 52)\<close>, and \<open>rnd x\<close> is the nearest
  of them. A float literal of the source is the rounded decimal (\<open>rnd 1.2\<close> for \<open>1.2\<close>).
  \<open>temp ** 2\<close> is taken as the rounded square, and \<open>math.fsum\<close> is the rounded exact sum
  of its terms.
\<close>

definition round_half_even :: "real \<Rightarrow> int" where
  "round_half_even y =
     (let n = \<lfloor>y\<rfloor>; r = y - of_int n
      in if r < 1 / 2 then n else if r > 1 / 2 then n + 1 else if even n then n else n + 1)"

definition exponent :: "real \<Rightarrow> int" where
  "exponent x =
     (if \<bar>x\<bar> \<ge> 1 then bitlen \<lfloor>\<bar>x\<bar>\<rfloor> - 1 else - bitlen (\<lceil>1 / \<bar>x\<bar>\<rceil> - 1))"

definition rnd :: "real \<Rightarrow> real" where
  "rnd x =
     (if x = 0 then 0
      else (let u = 2 powi (exponent x - 52) in of_int (round_half_even (x / u)) * u))"

definition fadd :: "real \<Rightarrow> real \<Rightarrow> real" where
  "fadd a b = rnd (a + b)"

definition fsub :: "real \<Rightarrow> real \<Rightarrow> real" where
  "fsub a b = rnd (a - b)"

definition fmul :: "real \<Rightarrow> real \<Rightarrow> real" where
  "fmul a b = rnd (a * b)"

definition fdiv :: "real \<Rightarrow> real \<Rightarrow> real" where
  "fdiv a b = rnd (a / b)"

definition fsquare :: "real \<Rightarrow> real" where
  "fsquare a = rnd (a ^ 2)"

definition fsum :: "real list \<Rightarrow> real" where
  "fsum xs = rnd (sum_list xs)"

section \<open>Derived room values\<close>

text \<open>
  \<open>c2f\<close> is \<open>float(c_temp) * 9.0 / 5.0 + 32.0\<close> and \<open>f2c\<close> is
  \<open>(float(f_temp) - 32.0) * 5.0 / 9.0\<close>, evaluated from left to right. A measurement is a
  number the JSON parser has read, so \<open>float\<close> changes nothing.
\<close>

definition c2f :: "real \<Rightarrow> real" where
  "c2f c_temp = fadd (fdiv (fmul c_temp 9) 5) 32"

definition f2c :: "real \<Rightarrow> real" where
  "f2c f_temp = fdiv (fmul (fsub f_temp 32) 5) 9"

text \<open>
  The properties \<open>room_temp\<close> and \<open>room_humidity\<close> turn the \<open>KeyError\<close> of a missing
  key into \<open>AttributeError\<close>; \<open>Mode.temp_unit\<close> raises \<open>AttributeError\<close> when the state
  has no \<open>temperatureUnit\<close>. Each of them fetches from the server again, so a derived
  value is computed from three fetches of its own. (After a property of \<open>Pod\<close> has raised
  \<open>AttributeError\<close>, Python calls \<open>Pod.__getattr__\<close>, which looks for a mode of that
  name and raises \<open>AttributeError\<close> again; no mode is named like a property.)
\<close>

definition room_temp :: "measurements \<Rightarrow> error + real" where
  "room_temp m = (case temperature m of None \<Rightarrow> Inl AttributeError | Some t \<Rightarrow> Inr t)"

definition room_humidity :: "measurements \<Rightarrow> error + real" where
  "room_humidity m = (case humidity m of None \<Rightarrow> Inl AttributeError | Some h \<Rightarrow> Inr h)"

definition temp_unit :: "ac_state \<Rightarrow> error + string" where
  "temp_unit st = (case temperatureUnit st of None \<Rightarrow> Inl AttributeError | Some u \<Rightarrow> Inr u)"

record fetches =
  temp_fetch :: measurements
  humidity_fetch :: measurements
  state_fetch :: ac_state

text \<open>
  The arithmetic of the dew point, after the unit is known. \<open>math.log\<close> raises
  \<open>ValueError\<close> outside its domain and a division by zero raises \<open>ZeroDivisionError\<close>.
  The results of the C library's \<open>exp\<close> and \<open>log\<close> are not determined by a rounding
  rule, so this formula is evaluated over the reals.
\<close>

definition dew_point_value :: "bool \<Rightarrow> real \<Rightarrow> real \<Rightarrow> error + real" where
  "dew_point_value fnht_flag temp0 hum =
     (let temp = (if fnht_flag then f2c temp0 else temp0);
          var1 = (if temp > 0 then 17.368 else 17.966);
          var2 = (if temp > 0 then 238.88 else 247.15)
      in if var2 + temp = 0 then Inl ZeroDivisionError
         else
           (let pa = hum / 100 * exp (var1 * temp / (var2 + temp))
            in if pa \<le> 0 then Inl ValueError
               else if var1 - ln pa = 0 then Inl ZeroDivisionError
               else
                 (let dew_point = var2 * ln pa / (var1 - ln pa)
                  in Inr (if fnht_flag then c2f dew_point else dew_point))))"

definition room_dew_point :: "pod \<Rightarrow> fetches \<Rightarrow> (error + real) \<times> pod" where
  "room_dew_point p f =
     (case room_temp (temp_fetch f) of
        Inl e \<Rightarrow> (Inl e, p)
      | Inr temp \<Rightarrow>
          (case room_humidity (humidity_fetch f) of
             Inl e \<Rightarrow> (Inl e, p)
           | Inr hum \<Rightarrow>
               (case temp_unit (state_fetch f) of
                  Inr u \<Rightarrow>
                    (let fl = startswith (lower u) ''f''
                     in (dew_point_value fl temp hum, p\<lparr>fnht := Some fl, clcs := Some (\<not> fl)\<rparr>))
                | Inl e \<Rightarrow>
                    (case fnht p of
                       None \<Rightarrow> (Inl AttributeError, p)
                     | Some fl \<Rightarrow> (dew_point_value fl temp hum, p)))))"

text \<open>
  The heat index is built from \<open>+\<close>, \<open>-\<close>, \<open>*\<close>, \<open>**\<close> and \<open>math.fsum\<close> only, and its test
  \<open>heat_index >= 80\<close> is made on the rounded result of the simple formula.
\<close>

definition simple_heat_index :: "real \<Rightarrow> real \<Rightarrow> real" where
  "simple_heat_index temp hum =
     fmul 0.5
       (fadd (fadd (fadd temp 61) (fmul (fsub temp 68) (rnd 1.2))) (fmul hum (rnd 0.094)))"

definition rothfusz :: "real \<Rightarrow> real \<Rightarrow> real" where
  "rothfusz temp hum =
     fsum
       [- rnd 42.379,
        fmul (rnd 2.04901523) temp,
        fmul (rnd 10.14333127) hum,
        fmul (fmul (- rnd 0.22475541) temp) hum,
        fmul (- rnd 0.00683783) (fsquare temp),
        fmul (- rnd 0.05481717) (fsquare hum),
        fmul (fmul (rnd 0.00122874) (fsquare temp)) hum,
        fmul (fmul (rnd 0.00085282) temp) (fsquare hum),
        fmul (fmul (- rnd 0.00000199) (fsquare temp)) (fsquare hum)]"

definition heat_index_value :: "bool \<Rightarrow> real \<Rightarrow> real \<Rightarrow> real" where
  "heat_index_value clcs_flag temp0 hum =
     (let temp = (if clcs_flag then c2f temp0 else temp0);
          heat_index = simple_heat_index temp hum;
          heat_index = (if heat_index \<ge> 80 then rothfusz temp hum else heat_index)
      in if clcs_flag then f2c heat_index else heat_index)"

definition room_heat_index :: "pod \<Rightarrow> fetches \<Rightarrow> (error + real) \<times> pod" where
  "room_heat_index p f =
     (case room_temp (temp_fetch f) of
        Inl e \<Rightarrow> (Inl e, p)
      | Inr temp \<Rightarrow>
          (case room_humidity (humidity_fetch f) of
             Inl e \<Rightarrow> (Inl e, p)
           | Inr hum \<Rightarrow>
               (case temp_unit (state_fetch f) of
                  Inr u \<Rightarrow>
                    (let cl = startswith (lower u) ''c''
                     in (Inr (heat_index_value cl temp hum),
                         p\<lparr>clcs := Some cl, fnht := Some (\<not> cl)\<rparr>))
                | Inl e \<Rightarrow>
                    (case clcs p of
                       None \<Rightarrow> (Inl AttributeError, p)
                     | Some cl \<Rightarrow> (Inr (heat_index_value cl temp hum), p)))))"

section \<open>One pass of the poll loop (Pod._poll)\<close>

text \<open>
  The state of the loop: the pod (its \<open>_mode\<close> and unit flags change while polling), the
  two baselines \<open>old_state\<close> and \<open>old_measurements\<close>, and, as a record of what the loop
  did, the notifications it has sent so far, oldest first. A step returns the new state
  and the exception that ended it, if any; an exception leaves \<open>_poll\<close> and ends the pass.
  The fetches of a pass are its inputs; a fetch that fails in the transport never
  reaches the diff and is not modelled.
\<close>

record poll =
  self :: pod
  old_state :: ac_state
  old_measurements :: measurements
  published :: "event list"

text \<open>The head of \<open>_poll\<close>: the baselines are the first fetch, and nothing is sent.\<close>

definition poll_start :: "pod \<Rightarrow> ac_state \<Rightarrow> measurements \<Rightarrow> poll" where
  "poll_start p st ms =
     \<lparr>self = p,
      old_state = \<lparr>mode = mode st, swing = swing st, targetTemperature = targetTemperature st,
        fanLevel = fanLevel st, on = on st, temperatureUnit = temperatureUnit st\<rparr>,
      old_measurements = \<lparr>temperature = temperature ms, humidity = humidity ms,
        batteryVoltage = batteryVoltage ms\<rparr>,
      published = []\<rparr>"

definition and_then ::
  "(poll \<Rightarrow> poll \<times> error option) \<Rightarrow> (poll \<Rightarrow> poll \<times> error option) \<Rightarrow>
   poll \<Rightarrow> poll \<times> error option" where
  "and_then f g s = (case f s of (s', None) \<Rightarrow> g s' | (s', Some e) \<Rightarrow> (s', Some e))"

text \<open>A call \<open>Notify(event, value, obj)\<close> from the loop, through the router \<open>cbs\<close>.\<close>

definition Notify :: "callbacks \<Rightarrow> string \<Rightarrow> pyval \<Rightarrow> obj \<Rightarrow> poll \<Rightarrow> poll \<times> error option" where
  "Notify cbs event v ob s =
     (s\<lparr>published := published s @ [(event, v, ob)]\<rparr>, snd (Notify_call cbs event v ob))"

definition pod_event :: "poll \<Rightarrow> string \<Rightarrow> string" where
  "pod_event s property_name = name (self s) @ ''.'' @ property_name"

definition mode_event :: "poll \<Rightarrow> string \<Rightarrow> string" where
  "mode_event s property_name =
     name (self s) @ ''.'' @ mode_name (self s) @ ''.'' @ property_name"

definition self_obj :: "poll \<Rightarrow> obj" where
  "self_obj s = Pod_obj (name (self s))"

definition mode_obj :: "poll \<Rightarrow> obj" where
  "mode_obj s = Mode_obj (name (self s)) (mode_name (self s))"

text \<open>
  \<open>Mode(self, mode, self.capabilities['modes'][mode])\<close> raises \<open>KeyError\<close> for a mode
  the capabilities do not list, before the baseline is touched.
\<close>

definition diff_mode :: "callbacks \<Rightarrow> ac_state \<Rightarrow> poll \<Rightarrow> poll \<times> error option" where
  "diff_mode cbs st s =
     (case mode st of
        None \<Rightarrow> (s, None)
      | Some m \<Rightarrow>
          if Some m \<noteq> mode (old_state s) then
            (if m \<in> set (capabilities_modes (self s)) then
               (let s1 = s\<lparr>self := (self s)\<lparr>mode_name := m\<rparr>\<rparr>;
                    s2 = s1\<lparr>old_state := (old_state s1)\<lparr>mode := Some m\<rparr>\<rparr>
                in Notify cbs (pod_event s2 ''mode'') (VStr (mode_name (self s2))) (self_obj s2) s2)
             else (s, Some KeyError))
          else (s, None))"

definition diff_swing :: "callbacks \<Rightarrow> ac_state \<Rightarrow> poll \<Rightarrow> poll \<times> error option" where
  "diff_swing cbs st s =
     (case swing st of
        None \<Rightarrow> (s, None)
      | Some v \<Rightarrow>
          if Some v \<noteq> swing (old_state s) then
            (let s1 = s\<lparr>old_state := (old_state s)\<lparr>swing := Some v\<rparr>\<rparr>
             in Notify cbs (mode_event s1 ''swing'') (VStr v) (mode_obj s1) s1)
          else (s, None))"

definition diff_temp :: "callbacks \<Rightarrow> ac_state \<Rightarrow> poll \<Rightarrow> poll \<times> error option" where
  "diff_temp cbs st s =
     (case targetTemperature st of
        None \<Rightarrow> (s, None)
      | Some v \<Rightarrow>
          if Some v \<noteq> targetTemperature (old_state s) then
            (let s1 = s\<lparr>old_state := (old_state s)\<lparr>targetTemperature := Some v\<rparr>\<rparr>
             in Notify cbs (mode_event s1 ''temp'') (VInt v) (mode_obj s1) s1)
          else (s, None))"

definition diff_fan :: "callbacks \<Rightarrow> ac_state \<Rightarrow> poll \<Rightarrow> poll \<times> error option" where
  "diff_fan cbs st s =
     (case fanLevel st of
        None \<Rightarrow> (s, None)
      | Some v \<Rightarrow>
          if Some v \<noteq> fanLevel (old_state s) then
            (let s1 = s\<lparr>old_state := (old_state s)\<lparr>fanLevel := Some v\<rparr>\<rparr>
             in Notify cbs (mode_event s1 ''fan_level'') (VStr v) (mode_obj s1) s1)
          else (s, None))"

text \<open>The value of the power event is \<open>bool(power)\<close>; \<open>power\<close> is a JSON boolean.\<close>

definition diff_power :: "callbacks \<Rightarrow> ac_state \<Rightarrow> poll \<Rightarrow> poll \<times> error option" where
  "diff_power cbs st s =
     (case on st of
        None \<Rightarrow> (s, None)
      | Some v \<Rightarrow>
          if Some v \<noteq> on (old_state s) then
            (let s1 = s\<lparr>old_state := (old_state s)\<lparr>on := Some v\<rparr>\<rparr>
             in Notify cbs (pod_event s1 ''power'') (VBool v) (self_obj s1) s1)
          else (s, None))"

definition diff_temp_unit :: "callbacks \<Rightarrow> ac_state \<Rightarrow> poll \<Rightarrow> poll \<times> error option" where
  "diff_temp_unit cbs st s =
     (case temperatureUnit st of
        None \<Rightarrow> (s, None)
      | Some v \<Rightarrow>
          if Some v \<noteq> temperatureUnit (old_state s) then
            (let s1 = s\<lparr>old_state := (old_state s)\<lparr>temperatureUnit := Some v\<rparr>\<rparr>
             in Notify cbs (mode_event s1 ''temp_unit'') (VStr v) (mode_obj s1) s1)
          else (s, None))"

text \<open>A measurement read from the fetched dict, or Python's \<open>None\<close> when the key is absent.\<close>

definition num_val :: "real option \<Rightarrow> pyval" where
  "num_val x = (case x of None \<Rightarrow> VNone | Some r \<Rightarrow> VNum r)"

text \<open>
  \<open>hi_dp_event\<close>: both derived values inside one \<open>try\<close>. Each value is computed
  before its own \<open>Notify\<close> call is made. \<open>except AttributeError: pass\<close> ends the block
  quietly on that exception, wherever it came from; every other exception goes on.
\<close>

definition hi_dp_event :: "callbacks \<Rightarrow> fetches \<Rightarrow> fetches \<Rightarrow> poll \<Rightarrow> poll \<times> error option" where
  "hi_dp_event cbs dp hi s =
     (let r =
        (case room_dew_point (self s) dp of
           (Inl e, p) \<Rightarrow> (s\<lparr>self := p\<rparr>, Some e)
         | (Inr d, p) \<Rightarrow>
             (case Notify cbs (pod_event s ''room_dew_point'') (VNum d) (self_obj s) (s\<lparr>self := p\<rparr>) of
                (s1, Some e) \<Rightarrow> (s1, Some e)
              | (s1, None) \<Rightarrow>
                  (case room_heat_index (self s1) hi of
                     (Inl e, p1) \<Rightarrow> (s1\<lparr>self := p1\<rparr>, Some e)
                   | (Inr h, p1) \<Rightarrow>
                       Notify cbs (pod_event s1 ''room_heat_index'') (VNum h) (self_obj s1)
                         (s1\<lparr>self := p1\<rparr>))))
      in (case r of
            (s', Some AttributeError) \<Rightarrow> (s', None)
          | (s', other) \<Rightarrow> (s', other)))"

definition rh_event :: "callbacks \<Rightarrow> measurements \<Rightarrow> poll \<Rightarrow> poll \<times> error option" where
  "rh_event cbs ms s = Notify cbs (pod_event s ''room_humidity'') (num_val (humidity ms)) (self_obj s) s"

definition temp_event :: "callbacks \<Rightarrow> measurements \<Rightarrow> poll \<Rightarrow> poll \<times> error option" where
  "temp_event cbs ms s = Notify cbs (pod_event s ''room_temp'') (num_val (temperature ms)) (self_obj s) s"

text \<open>
  Temperature and humidity are compared with \<open>!=\<close> as fetched, \<open>None\<close> included: these
  tests have no \<open>is not None\<close> guard.
\<close>

definition diff_room ::
  "callbacks \<Rightarrow> measurements \<Rightarrow> fetches \<Rightarrow> fetches \<Rightarrow> poll \<Rightarrow> poll \<times> error option" where
  "diff_room cbs ms dp hi s =
     (if humidity ms \<noteq> humidity (old_measurements s) \<and>
         temperature ms \<noteq> temperature (old_measurements s) then
        and_then (temp_event cbs ms) (and_then (rh_event cbs ms) (hi_dp_event cbs dp hi))
          (s\<lparr>old_measurements :=
               (old_measurements s)\<lparr>temperature := temperature ms, humidity := humidity ms\<rparr>\<rparr>)
      else if temperature ms \<noteq> temperature (old_measurements s) then
        and_then (temp_event cbs ms) (hi_dp_event cbs dp hi)
          (s\<lparr>old_measurements := (old_measurements s)\<lparr>temperature := temperature ms\<rparr>\<rparr>)
      else if humidity ms \<noteq> humidity (old_measurements s) then
        and_then (rh_event cbs ms) (hi_dp_event cbs dp hi)
          (s\<lparr>old_measurements := (old_measurements s)\<lparr>humidity := humidity ms\<rparr>\<rparr>)
      else (s, None))"

definition diff_battery :: "callbacks \<Rightarrow> measurements \<Rightarrow> poll \<Rightarrow> poll \<times> error option" where
  "diff_battery cbs ms s =
     (if batteryVoltage ms \<noteq> batteryVoltage (old_measurements s) then
        (let s1 = s\<lparr>old_measurements := (old_measurements s)\<lparr>batteryVoltage := batteryVoltage ms\<rparr>\<rparr>
         in Notify cbs (pod_event s1 ''battery_voltage'') (num_val (batteryVoltage ms)) (self_obj s1) s1)
      else (s, None))"

text \<open>
  The measurement part of a pass (the room block, then the battery block) and the whole
  pass: the body of the \<open>while\<close> loop between the fetches and the wait.
\<close>

definition diff_measurements ::
  "callbacks \<Rightarrow> measurements \<Rightarrow> fetches \<Rightarrow> fetches \<Rightarrow> poll \<Rightarrow> poll \<times> error option" where
  "diff_measurements cbs ms dp hi = and_then (diff_room cbs ms dp hi) (diff_battery cbs ms)"

definition diff_state :: "callbacks \<Rightarrow> ac_state \<Rightarrow> poll \<Rightarrow> poll \<times> error option" where
  "diff_state cbs st =
     and_then (diff_mode cbs st)
       (and_then (diff_swing cbs st)
          (and_then (diff_temp cbs st)
             (and_then (diff_fan cbs st)
                (and_then (diff_power cbs st) (diff_temp_unit cbs st)))))"

definition poll_pass ::
  "callbacks \<Rightarrow> ac_state \<Rightarrow> measurements \<Rightarrow> fetches \<Rightarrow> fetches \<Rightarrow> poll \<Rightarrow> poll \<times> error option" where
  "poll_pass cbs st ms dp hi = and_then (diff_state cbs st) (diff_measurements cbs ms dp hi)"

section \<open>What a dispatch does\<close>


text \<open>
  A step of the pass only ever adds to the record of sent notifications.
\<close>

definition appends_only :: "(poll \<Rightarrow> poll \<times> error option) \<Rightarrow> bool" where
  "appends_only f = (\<forall>s. \<exists>rest. published (fst (f s)) = published s @ rest)"





subsection \<open>A device and two callbacks for concrete runs\<close>

text \<open>
  A pod named \<open>den\<close> in mode \<open>cool\<close> whose capabilities list the modes \<open>cool\<close> and
  \<open>heat\<close>, a state and measurements the server may return for it, a callback that raises
  and one that returns.
\<close>

definition den :: pod where
  "den = \<lparr>name = ''den'', mode_name = ''cool'', capabilities_modes = [''cool'', ''heat''],
     fnht = None, clcs = None\<rparr>"

definition den_state :: ac_state where
  "den_state = \<lparr>mode = Some ''cool'', swing = Some ''stopped'', targetTemperature = Some 21,
     fanLevel = Some ''low'', on = Some False, temperatureUnit = Some ''C''\<rparr>"

definition den_measurements :: measurements where
  "den_measurements = \<lparr>temperature = Some 21, humidity = Some 50, batteryVoltage = Some 3000\<rparr>"

definition den_fetches :: fetches where
  "den_fetches = \<lparr>temp_fetch = den_measurements, humidity_fetch = den_measurements,
     state_fetch = den_state\<rparr>"

definition boom :: callback where
  "boom event v ob = Some (OtherError ''boom'')"

definition quiet :: callback where
  "quiet event v ob = None"

text \<open>
  Measurements of a warm, saturated room and of a room at zero humidity with the fetches
  that return them, and fetches whose state has no \<open>temperatureUnit\<close>.
\<close>

definition warm :: measurements where
  "warm = \<lparr>temperature = Some 25, humidity = Some 100, batteryVoltage = Some 2900\<rparr>"

definition warm_fetches :: fetches where
  "warm_fetches = \<lparr>temp_fetch = warm, humidity_fetch = warm, state_fetch = den_state\<rparr>"

definition dry_air :: measurements where
  "dry_air = \<lparr>temperature = Some 25, humidity = Some 0, batteryVoltage = Some 2900\<rparr>"

definition dry_air_fetches :: fetches where
  "dry_air_fetches = \<lparr>temp_fetch = dry_air, humidity_fetch = dry_air, state_fetch = den_state\<rparr>"

definition no_unit_fetches :: fetches where
  "no_unit_fetches = \<lparr>temp_fetch = den_measurements, humidity_fetch = den_measurements,
     state_fetch = den_state\<lparr>temperatureUnit := None\<rparr>\<rparr>"





lemmas warm_defs = warm_def warm_fetches_def dry_air_def dry_air_fetches_def

lemmas den_defs = den_def den_state_def den_measurements_def den_fetches_def

lemmas poll_defs =
  poll_pass_def diff_state_def diff_measurements_def and_then_def diff_mode_def diff_swing_def
  diff_temp_def diff_fan_def diff_power_def diff_temp_unit_def diff_room_def diff_battery_def
  poll_start_def Notify_def pod_event_def mode_event_def self_obj_def mode_obj_def num_val_def
  temp_event_def rh_event_def hi_dp_event_def room_dew_point_def room_heat_index_def
  room_temp_def room_humidity_def temp_unit_def

lemma matches_plain:
  "CHR ''*'' \<notin> set evt \<Longrightarrow> CHR ''?'' \<notin> set evt \<Longrightarrow> matches evt event = (lower evt = event)"
  by (simp add: matches_def)




text \<open>
  Claim C3, evaluated on the code. A pattern without \<open>*\<close> or \<open>?\<close> is compared by
  \<open>evt.lower() == event\<close>: the pattern is lowered, the event name is not. So the
  pattern \<open>Den.power\<close>, which is what \<open>Pod.bind\<close> registers for the pod named \<open>Den\<close>,
  does not receive the event \<open>Den.power\<close> that the poll loop of that pod sends, and
  neither does the pattern \<open>den.power\<close>; the two are equal without regard to case in
  both cases. Only an event name that is already in lower case is matched.
\<close>

theorem Notify_call_lowers_only_the_pattern:
  "Pod_bind [] 0 ''Den'' ''power'' (\<lambda>e v ob. None) =
     Inr ([(''Den.power'', [(0, \<lambda>e v ob. None)])], 0)
   \<and> Notify_call [(''Den.power'', [(0, \<lambda>e v ob. None)])]
         ''Den.power'' (VBool True) (Pod_obj ''Den'') = ([], None)
   \<and> Notify_call [(''den.power'', [(0, \<lambda>e v ob. None)])]
         ''Den.power'' (VBool True) (Pod_obj ''Den'') = ([], None)
   \<and> Notify_call [(''Den.power'', [(0, \<lambda>e v ob. None)])]
         ''den.power'' (VBool True) (Pod_obj ''Den'') = ([0], None)"
  by (simp add: Pod_bind_def pod_property_names_def bind_def matches_def lower_def lower_char_def)



section \<open>What a pass of the poll loop does\<close>

lemma appends_onlyD: "appends_only f \<Longrightarrow> \<exists>rest. published (fst (f s)) = published s @ rest"
  by (simp add: appends_only_def)

lemma Notify_appends: "appends_only (Notify cbs event v ob)"
  by (simp add: appends_only_def Notify_def)

lemma and_then_appends:
  assumes "appends_only f" "appends_only g"
  shows "appends_only (and_then f g)"
  unfolding appends_only_def
proof
  fix s
  obtain s1 r where f: "f s = (s1, r)" by (cases "f s")
  from appends_onlyD[OF assms(1), of s] f obtain r1 where r1: "published s1 = published s @ r1"
    by auto
  show "\<exists>rest. published (fst (and_then f g s)) = published s @ rest"
  proof (cases r)
    case None
    from appends_onlyD[OF assms(2), of s1] obtain r2 where
      "published (fst (g s1)) = published s1 @ r2" by auto
    with None f r1 show ?thesis by (simp add: and_then_def)
  next
    case (Some e)
    with f r1 show ?thesis by (simp add: and_then_def)
  qed
qed

lemma diff_swing_appends: "appends_only (diff_swing cbs st)"
  by (simp add: appends_only_def diff_swing_def Notify_def Let_def split: option.splits)

lemma diff_temp_appends: "appends_only (diff_temp cbs st)"
  by (simp add: appends_only_def diff_temp_def Notify_def Let_def split: option.splits)

lemma diff_fan_appends: "appends_only (diff_fan cbs st)"
  by (simp add: appends_only_def diff_fan_def Notify_def Let_def split: option.splits)

lemma diff_power_appends: "appends_only (diff_power cbs st)"
  by (simp add: appends_only_def diff_power_def Notify_def Let_def split: option.splits)

lemma diff_temp_unit_appends: "appends_only (diff_temp_unit cbs st)"
  by (simp add: appends_only_def diff_temp_unit_def Notify_def Let_def split: option.splits)

lemma diff_battery_appends: "appends_only (diff_battery cbs ms)"
  by (simp add: appends_only_def diff_battery_def Notify_def Let_def)

lemma hi_dp_event_appends: "appends_only (hi_dp_event cbs dp hi)"
  by (auto simp: appends_only_def hi_dp_event_def Notify_def Let_def
      split: prod.splits sum.splits option.splits error.splits)

lemma temp_event_appends: "appends_only (temp_event cbs ms)"
  by (simp add: temp_event_def appends_only_def Notify_def)

lemma rh_event_appends: "appends_only (rh_event cbs ms)"
  by (simp add: rh_event_def appends_only_def Notify_def)

lemma diff_room_appends: "appends_only (diff_room cbs ms dp hi)"
  unfolding appends_only_def
proof
  fix s
  let ?R = "\<lambda>f s'. \<exists>rest. published (fst (f s')) = published s' @ rest"
  have a: "appends_only (and_then (temp_event cbs ms) (and_then (rh_event cbs ms) (hi_dp_event cbs dp hi)))"
    by (intro and_then_appends temp_event_appends rh_event_appends hi_dp_event_appends)
  have b: "appends_only (and_then (temp_event cbs ms) (hi_dp_event cbs dp hi))"
    by (intro and_then_appends temp_event_appends hi_dp_event_appends)
  have c: "appends_only (and_then (rh_event cbs ms) (hi_dp_event cbs dp hi))"
    by (intro and_then_appends rh_event_appends hi_dp_event_appends)
  show "\<exists>rest. published (fst (diff_room cbs ms dp hi s)) = published s @ rest"
    using appends_onlyD[OF a, of "s\<lparr>old_measurements :=
               (old_measurements s)\<lparr>temperature := temperature ms, humidity := humidity ms\<rparr>\<rparr>"]
      appends_onlyD[OF b, of "s\<lparr>old_measurements := (old_measurements s)\<lparr>temperature := temperature ms\<rparr>\<rparr>"]
      appends_onlyD[OF c, of "s\<lparr>old_measurements := (old_measurements s)\<lparr>humidity := humidity ms\<rparr>\<rparr>"]
    by (simp add: diff_room_def)
qed

lemma diff_measurements_appends: "appends_only (diff_measurements cbs ms dp hi)"
  unfolding diff_measurements_def
  by (intro and_then_appends diff_room_appends diff_battery_appends)

lemma and_then_None: "f s = (s1, None) \<Longrightarrow> and_then f g s = g s1"
  by (simp add: and_then_def)

lemma and_then_published:
  assumes "appends_only g" "f s = (s1, r)"
  shows "\<exists>rest. published (fst (and_then f g s)) = published s1 @ rest"
proof (cases r)
  case None
  with assms(2) appends_onlyD[OF assms(1), of s1] show ?thesis by (simp add: and_then_def)
next
  case (Some e)
  with assms(2) show ?thesis by (simp add: and_then_def)
qed

subsection \<open>An exception of a callback ends the pass\<close>






















text \<open>
  Claim C5. A pass whose fetched state and measurements are the baselines themselves
  sends nothing, raises nothing and leaves the loop's state as it was.
\<close>

theorem poll_pass_identical_snapshots:
  "poll_pass cbs (old_state s) (old_measurements s) dp hi s = (s, None)"
  by (simp add: poll_defs split: option.splits)

text \<open>
  Claim C6. When the fetched snapshot is the baseline except for \<open>on\<close>, whose new value
  \<open>b\<close> is known and is not the baseline's, the pass sends exactly one notification: the
  power event of the pod with the boolean \<open>b\<close>. The baseline of \<open>on\<close> becomes \<open>b\<close> and
  the pass ends with whatever the dispatch of that one event returned.
\<close>

theorem poll_pass_power_only:
  "on (old_state s) \<noteq> Some b \<Longrightarrow>
   poll_pass cbs ((old_state s)\<lparr>on := Some b\<rparr>) (old_measurements s) dp hi s =
     (s\<lparr>old_state := (old_state s)\<lparr>on := Some b\<rparr>,
        published := published s @ [(name (self s) @ ''.power'', VBool b, Pod_obj (name (self s)))]\<rparr>,
      snd (Notify_call cbs (name (self s) @ ''.power'') (VBool b) (Pod_obj (name (self s)))))"
  by (simp add: poll_defs split: option.splits)

text \<open>
  The pod \<open>den\<close> is switched on: the baseline has \<open>on\<close> false, the fetched state true.
\<close>

theorem poll_pass_power_only_witness:
  "on (old_state (poll_start den den_state den_measurements)) \<noteq> Some True
   \<and> published (fst (poll_pass [] (den_state\<lparr>on := Some True\<rparr>) den_measurements den_fetches den_fetches
        (poll_start den den_state den_measurements))) = [(''den.power'', VBool True, Pod_obj ''den'')]"
proof -
  have h: "on (old_state (poll_start den den_state den_measurements)) \<noteq> Some True"
    by (simp add: poll_start_def den_defs)
  from poll_pass_power_only[OF h, of "[]" den_fetches den_fetches] h
  show ?thesis by (simp add: poll_start_def den_defs)
qed

text \<open>
  Claim C1, evaluated on the code. The six tests on the device state are guarded by
  \<open>is not None\<close>, the three tests on the measurements are not. The baseline holds a
  battery voltage of 3000 and the fetched measurements have no \<open>batteryVoltage\<close>: the
  pass sends \<open>den.battery_voltage\<close> with the value \<open>None\<close> and overwrites the baseline
  with \<open>None\<close>. The same happens to an absent \<open>temperature\<close>. An absent \<open>swing\<close>, by
  contrast, sends nothing and leaves the baseline alone.
\<close>

theorem poll_pass_absent_measurement_fires:
  "published (fst (poll_pass [] den_state (den_measurements\<lparr>batteryVoltage := None\<rparr>)
       den_fetches den_fetches (poll_start den den_state den_measurements))) =
     [(''den.battery_voltage'', VNone, Pod_obj ''den'')]
   \<and> batteryVoltage (old_measurements (fst (poll_pass [] den_state
       (den_measurements\<lparr>batteryVoltage := None\<rparr>)
       den_fetches den_fetches (poll_start den den_state den_measurements)))) = None
   \<and> published (fst (poll_pass [] den_state (den_measurements\<lparr>temperature := None\<rparr>)
       (den_fetches\<lparr>temp_fetch := den_measurements\<lparr>temperature := None\<rparr>\<rparr>)
       (den_fetches\<lparr>temp_fetch := den_measurements\<lparr>temperature := None\<rparr>\<rparr>)
       (poll_start den den_state den_measurements))) =
     [(''den.room_temp'', VNone, Pod_obj ''den'')]
   \<and> temperature (old_measurements (fst (poll_pass [] den_state
       (den_measurements\<lparr>temperature := None\<rparr>)
       (den_fetches\<lparr>temp_fetch := den_measurements\<lparr>temperature := None\<rparr>\<rparr>)
       (den_fetches\<lparr>temp_fetch := den_measurements\<lparr>temperature := None\<rparr>\<rparr>)
       (poll_start den den_state den_measurements)))) = None
   \<and> poll_pass [] (den_state\<lparr>swing := None\<rparr>) den_measurements den_fetches den_fetches
       (poll_start den den_state den_measurements) =
     (poll_start den den_state den_measurements, None)"
  by (simp add: poll_defs den_defs)

text \<open>
  Claim C4 fails on the code in two ways. A new mode that the capabilities do not list
  makes the pass end with \<open>KeyError\<close> before anything is sent or stored; and when a
  callback of the mode event raises, the mode event is the only one sent and the changed
  swing is neither announced nor stored.
\<close>

theorem poll_pass_mode_then_swing_counterexample:
  "poll_pass [] (den_state\<lparr>mode := Some ''dry'', swing := Some ''rangeFull''\<rparr>) den_measurements
      den_fetches den_fetches (poll_start den den_state den_measurements) =
     (poll_start den den_state den_measurements, Some KeyError)
   \<and> published (fst (poll_pass [(''den.mode'', [(0, boom)])]
        (den_state\<lparr>mode := Some ''heat'', swing := Some ''rangeFull''\<rparr>) den_measurements
        den_fetches den_fetches (poll_start den den_state den_measurements))) =
       [(''den.mode'', VStr ''heat'', Pod_obj ''den'')]
   \<and> swing (old_state (fst (poll_pass [(''den.mode'', [(0, boom)])]
        (den_state\<lparr>mode := Some ''heat'', swing := Some ''rangeFull''\<rparr>) den_measurements
        den_fetches den_fetches (poll_start den den_state den_measurements)))) = Some ''stopped''"
  by (simp add: poll_defs den_defs boom_def matches_def lower_def lower_char_def)

text \<open>
  Claim C4 as amended. When the fetched mode \<open>B\<close> is known, differs from the baseline's
  and is listed in the pod's capabilities, the fetched swing is known and differs from the
  baseline's, and the dispatch of the mode event returns, then the pass sends first the
  mode event with the value \<open>B\<close> and next the swing event named under \<open>B\<close>, with the
  mode object of \<open>B\<close>; whatever else it sends comes after these two.
\<close>

theorem poll_pass_mode_then_swing:
  assumes "mode st = Some B" and "mode (old_state s) \<noteq> Some B"
    and "swing st = Some w" and "swing (old_state s) \<noteq> Some w"
    and "B \<in> set (capabilities_modes (self s))"
    and "snd (Notify_call cbs (name (self s) @ ''.mode'') (VStr B) (Pod_obj (name (self s)))) = None"
  shows "\<exists>rest. published (fst (poll_pass cbs st ms dp hi s)) =
           published s @
           [(name (self s) @ ''.mode'', VStr B, Pod_obj (name (self s))),
            (name (self s) @ ''.'' @ B @ ''.swing'', VStr w, Mode_obj (name (self s)) B)] @ rest"
proof -
  define s2 where "s2 = s\<lparr>self := (self s)\<lparr>mode_name := B\<rparr>,
      old_state := (old_state s)\<lparr>mode := Some B\<rparr>,
      published := published s @ [(name (self s) @ ''.mode'', VStr B, Pod_obj (name (self s)))]\<rparr>"
  have m: "diff_mode cbs st s = (s2, None)"
    using assms by (simp add: diff_mode_def Notify_def pod_event_def self_obj_def s2_def Let_def)
  define s3 where "s3 = s2\<lparr>old_state := (old_state s2)\<lparr>swing := Some w\<rparr>,
      published := published s2 @ [(name (self s) @ ''.'' @ B @ ''.swing'', VStr w, Mode_obj (name (self s)) B)]\<rparr>"
  obtain r where sw: "diff_swing cbs st s2 = (s3, r)"
    using assms by (simp add: diff_swing_def Notify_def mode_event_def mode_obj_def s2_def s3_def Let_def)
  let ?tail = "and_then (diff_temp cbs st) (and_then (diff_fan cbs st)
      (and_then (diff_power cbs st) (diff_temp_unit cbs st)))"
  have tail: "appends_only ?tail"
    by (intro and_then_appends diff_temp_appends diff_fan_appends diff_power_appends
        diff_temp_unit_appends)
  from and_then_published[where f = "diff_swing cbs st" and s = s2, OF tail sw] obtain r1 where
    r1: "published (fst (and_then (diff_swing cbs st) ?tail s2)) = published s3 @ r1" by auto
  have ds: "diff_state cbs st s = and_then (diff_swing cbs st) ?tail s2"
    unfolding diff_state_def by (rule and_then_None) (rule m)
  obtain s4 r4 where d4: "diff_state cbs st s = (s4, r4)" by (cases "diff_state cbs st s")
  from r1 have "published (fst (diff_state cbs st s)) = published s3 @ r1"
    by (simp only: ds)
  then have p4: "published s4 = published s3 @ r1" by (simp add: d4)
  from and_then_published[where f = "diff_state cbs st" and s = s,
      OF diff_measurements_appends d4, of cbs ms dp hi] obtain r2 where
    "published (fst (poll_pass cbs st ms dp hi s)) = published s4 @ r2"
    by (auto simp: poll_pass_def)
  with p4 show ?thesis by (simp add: s3_def s2_def)
qed

text \<open>
  The pod \<open>den\<close> goes from \<open>cool\<close> to \<open>heat\<close> and its swing changes, with a
  subscriber to the mode event that returns.
\<close>

theorem poll_pass_mode_then_swing_witness:
  "published (fst (poll_pass [(''den.mode'', [(0, quiet)])]
      (den_state\<lparr>mode := Some ''heat'', swing := Some ''rangeFull''\<rparr>) den_measurements
      den_fetches den_fetches (poll_start den den_state den_measurements))) =
     [(''den.mode'', VStr ''heat'', Pod_obj ''den''),
      (''den.heat.swing'', VStr ''rangeFull'', Mode_obj ''den'' ''heat'')]"
proof -
  let ?s = "poll_start den den_state den_measurements"
  let ?st = "den_state\<lparr>mode := Some ''heat'', swing := Some ''rangeFull''\<rparr>"
  let ?cbs = "[(''den.mode'', [(0, quiet)])]"
  have h1: "mode ?st = Some ''heat''" by simp
  have h2: "mode (old_state ?s) \<noteq> Some ''heat''" by (simp add: poll_start_def den_defs)
  have h3: "swing ?st = Some ''rangeFull''" by simp
  have h4: "swing (old_state ?s) \<noteq> Some ''rangeFull''" by (simp add: poll_start_def den_defs)
  have h5: "''heat'' \<in> set (capabilities_modes (self ?s))" by (simp add: poll_start_def den_defs)
  have h6: "snd (Notify_call ?cbs (name (self ?s) @ ''.mode'') (VStr ''heat'')
      (Pod_obj (name (self ?s)))) = None"
    by (simp add: poll_start_def den_defs quiet_def matches_def lower_def lower_char_def)
  from poll_pass_mode_then_swing[OF h1 h2 h3 h4 h5 h6, of den_measurements den_fetches den_fetches]
  obtain rest where r: "published (fst (poll_pass ?cbs ?st den_measurements den_fetches den_fetches ?s)) =
      published ?s @ [(name (self ?s) @ ''.mode'', VStr ''heat'', Pod_obj (name (self ?s))),
        (name (self ?s) @ ''.'' @ ''heat'' @ ''.swing'', VStr ''rangeFull'',
         Mode_obj (name (self ?s)) ''heat'')] @ rest"
    by blast
  have "length (published (fst (poll_pass ?cbs ?st den_measurements den_fetches den_fetches ?s))) = 2"
    by (simp add: poll_defs den_defs quiet_def matches_def lower_def lower_char_def)
  with r have "rest = []" by (simp add: poll_start_def)
  with r show ?thesis by (simp add: poll_start_def den_defs)
qed

subsection \<open>The order of the measurement events\<close>

lemma dew_point_value_not_AttributeError: "dew_point_value fl t h \<noteq> Inl AttributeError"
  by (simp add: dew_point_value_def Let_def)




lemma room_dew_point_AttributeError_pod:
  "fst (room_dew_point p f) = Inl AttributeError \<Longrightarrow> snd (room_dew_point p f) = p"
  by (auto simp: room_dew_point_def room_temp_def room_humidity_def temp_unit_def Let_def
      dew_point_value_not_AttributeError split: option.splits)










section \<open>The derived values\<close>

subsection \<open>The rounding\<close>

text \<open>
  The rounding of the binary64 arithmetic is to the nearest: for \<open>x\<close> other than 0,
  \<open>exponent x\<close> is the binary exponent of \<open>x\<close>, and \<open>rnd x\<close>, a multiple of
  \<open>2 ^ (exponent x - 52)\<close>, is at most half such a unit away from \<open>x\<close>.
\<close>

lemma round_half_even_near: "\<bar>of_int (round_half_even y) - y\<bar> \<le> 1 / 2"
proof -
  have "of_int \<lfloor>y\<rfloor> \<le> y" "y < of_int \<lfloor>y\<rfloor> + 1" by linarith+
  then show ?thesis
    by (auto simp: round_half_even_def Let_def)
qed

lemma exponent_bounds:
  assumes "x \<noteq> 0"
  shows "2 powi exponent x \<le> \<bar>x\<bar> \<and> \<bar>x\<bar> < 2 powi (exponent x + 1)"
proof (cases "\<bar>x\<bar> \<ge> 1")
  case True
  define n where "n = \<lfloor>\<bar>x\<bar>\<rfloor>"
  have n1: "1 \<le> n" using True by (simp add: n_def le_floor_iff)
  then have n0: "0 < n" by simp
  from bitlen_bounds[OF n0] have b: "2 ^ nat (bitlen n - 1) \<le> n" "n < 2 ^ nat (bitlen n)"
    by simp_all
  have k: "1 \<le> bitlen n" using n0 by (auto simp: bitlen_alt_def)
  have e: "exponent x = bitlen n - 1" using True by (simp add: exponent_def n_def)
  have lo: "of_int n \<le> \<bar>x\<bar>" and hi: "\<bar>x\<bar> < of_int n + 1" unfolding n_def by linarith+
  have "(2::real) powi (bitlen n - 1) = 2 ^ nat (bitlen n - 1)"
    using k by (simp add: power_int_def)
  moreover have "(2::real) ^ nat (bitlen n - 1) \<le> of_int n"
    using b(1) by (metis of_int_le_iff of_int_numeral of_int_power)
  moreover have "(2::real) powi (bitlen n - 1 + 1) = 2 ^ nat (bitlen n)"
    using k by (simp add: power_int_def)
  moreover have "of_int n + 1 \<le> (2::real) ^ nat (bitlen n)"
  proof -
    from b(2) have "n + 1 \<le> 2 ^ nat (bitlen n)" by simp
    then have "of_int (n + 1) \<le> (of_int (2 ^ nat (bitlen n)) :: real)" by (simp only: of_int_le_iff)
    then show ?thesis by simp
  qed
  ultimately show ?thesis using lo hi unfolding e by linarith
next
  case False
  then have x1: "\<bar>x\<bar> < 1" by simp
  have x0: "0 < \<bar>x\<bar>" using assms by simp
  define m where "m = \<lceil>1 / \<bar>x\<bar>\<rceil> - 1"
  have "1 < 1 / \<bar>x\<bar>" using x0 x1 by (simp add: field_simps)
  then have "2 \<le> \<lceil>1 / \<bar>x\<bar>\<rceil>" by (simp add: le_ceiling_iff)
  then have m0: "0 < m" by (simp add: m_def)
  from bitlen_bounds[OF m0] have b: "2 ^ nat (bitlen m - 1) \<le> m" "m < 2 ^ nat (bitlen m)"
    by simp_all
  have k: "1 \<le> bitlen m" using m0 by (auto simp: bitlen_alt_def)
  have e: "exponent x = - bitlen m" using False by (simp add: exponent_def m_def)
  have lo: "of_int m < 1 / \<bar>x\<bar>" and hi: "1 / \<bar>x\<bar> \<le> of_int m + 1" unfolding m_def by linarith+
  have p1: "(2::real) ^ nat (bitlen m - 1) \<le> of_int m"
    using b(1) by (metis of_int_le_iff of_int_numeral of_int_power)
  have p2: "of_int m + 1 \<le> (2::real) ^ nat (bitlen m)"
  proof -
    from b(2) have "m + 1 \<le> 2 ^ nat (bitlen m)" by simp
    then have "of_int (m + 1) \<le> (of_int (2 ^ nat (bitlen m)) :: real)" by (simp only: of_int_le_iff)
    then show ?thesis by simp
  qed
  have q1: "(2::real) powi (- bitlen m) = 1 / 2 ^ nat (bitlen m)"
    using k by (simp add: power_int_def field_simps)
  have q2: "(2::real) powi (- bitlen m + 1) = 1 / 2 ^ nat (bitlen m - 1)"
    using k by (simp add: power_int_def field_simps nat_diff_distrib)
  have "1 / \<bar>x\<bar> \<le> 2 ^ nat (bitlen m)" using hi p2 by linarith
  then have a: "1 / 2 ^ nat (bitlen m) \<le> \<bar>x\<bar>" using x0 by (simp add: field_simps)
  have "2 ^ nat (bitlen m - 1) < 1 / \<bar>x\<bar>" using lo p1 by linarith
  then have c: "\<bar>x\<bar> < 1 / 2 ^ nat (bitlen m - 1)" using x0 by (simp add: field_simps)
  show ?thesis unfolding e q1 q2 using a c by simp
qed

lemma rnd_nearest: "\<bar>rnd x - x\<bar> \<le> 2 powi (exponent x - 53)"
proof (cases "x = 0")
  case True
  then show ?thesis by (simp add: rnd_def)
next
  case False
  define u :: real where "u = 2 powi (exponent x - 52)"
  have u0: "0 < u" by (simp add: u_def)
  have r: "rnd x = of_int (round_half_even (x / u)) * u"
    using False by (simp add: rnd_def Let_def u_def)
  have "rnd x - x = (of_int (round_half_even (x / u)) - x / u) * u"
    using u0 by (simp add: r field_simps)
  then have "\<bar>rnd x - x\<bar> = \<bar>of_int (round_half_even (x / u)) - x / u\<bar> * u"
    using u0 by (simp add: abs_mult)
  also have "\<dots> \<le> 1 / 2 * u"
    using round_half_even_near[of "x / u"] u0 by (intro mult_right_mono) simp_all
  also have "1 / 2 * u = 2 powi (exponent x - 53)"
    by (simp add: u_def power_int_diff)
  finally show ?thesis .
qed

subsection \<open>Heat index and dew point\<close>

lemma dew_point_value_defined:
  assumes "0 < hum" "hum \<le> 100" "- 247.15 < (if fl then f2c t else t)"
  shows "\<exists>d. dew_point_value fl t hum = Inr d"
proof -
  define T where "T = (if fl then f2c t else t)"
  define a :: real where "a = (if T > 0 then 17.368 else 17.966)"
  define b :: real where "b = (if T > 0 then 238.88 else 247.15)"
  have bT: "0 < b + T" using assms(3) by (auto simp: b_def T_def split: if_splits)
  have a0: "0 < a" by (simp add: a_def)
  have b0: "0 < b" by (simp add: b_def)
  define pa where "pa = hum / 100 * exp (a * T / (b + T))"
  have pa0: "0 < pa" using assms(1) by (simp add: pa_def)
  have "ln pa = ln (hum / 100) + ln (exp (a * T / (b + T)))"
    unfolding pa_def using assms(1) by (intro ln_mult_pos) auto
  then have lnpa: "ln pa = ln (hum / 100) + a * T / (b + T)"
    by simp
  have "ln (hum / 100) \<le> 0" using assms by (simp add: ln_le_zero_iff)
  moreover have "a - a * T / (b + T) = a * b / (b + T)"
    using bT by (simp add: field_simps)
  moreover have "0 < a * b / (b + T)" using a0 b0 bT by simp
  ultimately have pos: "0 < a - ln pa" unfolding lnpa by linarith
  show ?thesis
    using bT pa0 pos
    unfolding dew_point_value_def Let_def T_def[symmetric] a_def[symmetric] b_def[symmetric]
      pa_def[symmetric]
    by (auto simp: not_le)
qed













text \<open>
  Claim C9 fails on the code: the dew point is also unavailable when the unit can be
  determined but the fetched measurements have no temperature, because \<open>room_temp\<close>
  turns the missing key into \<open>AttributeError\<close>. And with a cached unit the computation
  does not always succeed: at a humidity of zero it ends in \<open>ValueError\<close>.
\<close>

theorem room_dew_point_unavailable_counterexample:
  "fst (room_dew_point den (den_fetches\<lparr>temp_fetch := den_measurements\<lparr>temperature := None\<rparr>\<rparr>)) =
     Inl AttributeError
   \<and> temperatureUnit (state_fetch (den_fetches\<lparr>temp_fetch := den_measurements\<lparr>temperature := None\<rparr>\<rparr>)) =
       Some ''C''
   \<and> fst (room_dew_point (den\<lparr>fnht := Some False, clcs := Some True\<rparr>)
        (dry_air_fetches\<lparr>state_fetch := den_state\<lparr>temperatureUnit := None\<rparr>\<rparr>)) = Inl ValueError"
  by (simp add: room_dew_point_def room_temp_def room_humidity_def temp_unit_def den_defs warm_defs
      dew_point_value_def)

text \<open>
  Claim C9 as amended. The dew point raises \<open>AttributeError\<close> exactly when the fetched
  measurements lack the temperature or the humidity, or the state has no unit and no unit
  is cached. Whenever it does, \<open>hi_dp_event\<close> sends neither \<open>room_dew_point\<close> nor
  \<open>room_heat_index\<close> and changes nothing. When both measurements are there, the state
  has no unit and a unit is cached, the computation is the dew point formula with the
  cached unit, and the pod is left as it was. The formula has a value whenever the
  humidity is above 0 and at most 100 and the Celsius temperature is at least -100.
\<close>

theorem room_dew_point_unavailable:
  "(fst (room_dew_point p f) = Inl AttributeError) =
     (temperature (temp_fetch f) = None \<or> humidity (humidity_fetch f) = None \<or>
      (temperatureUnit (state_fetch f) = None \<and> fnht p = None))
   \<and> (fst (room_dew_point (self s) f) = Inl AttributeError \<longrightarrow>
        hi_dp_event cbs f hi s = (s, None))
   \<and> (temperature (temp_fetch f) = Some t \<and> humidity (humidity_fetch f) = Some h \<and>
        temperatureUnit (state_fetch f) = None \<and> fnht p = Some fl \<longrightarrow>
        room_dew_point p f = (dew_point_value fl t h, p))
   \<and> (0 < h \<and> h \<le> 100 \<and> - 100 \<le> (if fl then f2c t else t) \<longrightarrow>
        (\<exists>d. dew_point_value fl t h = Inr d))"
proof (intro conjI impI)
  show "(fst (room_dew_point p f) = Inl AttributeError) =
     (temperature (temp_fetch f) = None \<or> humidity (humidity_fetch f) = None \<or>
      (temperatureUnit (state_fetch f) = None \<and> fnht p = None))"
    by (auto simp: room_dew_point_def room_temp_def room_humidity_def temp_unit_def Let_def
        dew_point_value_not_AttributeError split: option.splits)
next
  assume a: "fst (room_dew_point (self s) f) = Inl AttributeError"
  obtain rd p1 where r: "room_dew_point (self s) f = (rd, p1)" by (cases "room_dew_point (self s) f")
  with a room_dew_point_AttributeError_pod[OF a] have "rd = Inl AttributeError" "p1 = self s"
    by simp_all
  with r show "hi_dp_event cbs f hi s = (s, None)" by (simp add: hi_dp_event_def)
next
  assume "temperature (temp_fetch f) = Some t \<and> humidity (humidity_fetch f) = Some h \<and>
        temperatureUnit (state_fetch f) = None \<and> fnht p = Some fl"
  then show "room_dew_point p f = (dew_point_value fl t h, p)"
    by (simp add: room_dew_point_def room_temp_def room_humidity_def temp_unit_def)
next
  assume "0 < h \<and> h \<le> 100 \<and> - 100 \<le> (if fl then f2c t else t)"
  then show "\<exists>d. dew_point_value fl t h = Inr d"
    by (intro dew_point_value_defined) (auto split: if_splits)
qed

text \<open>
  The state of \<open>den\<close> has no unit: without a cached unit the dew point is unavailable
  and nothing is sent; with the cached unit Celsius it is the formula at 21 degrees and
  50 percent, which has a value.
\<close>

theorem room_dew_point_unavailable_witness:
  "fst (room_dew_point den no_unit_fetches) = Inl AttributeError
   \<and> hi_dp_event [] no_unit_fetches no_unit_fetches (poll_start den den_state den_measurements) =
       (poll_start den den_state den_measurements, None)
   \<and> room_dew_point (den\<lparr>fnht := Some False, clcs := Some True\<rparr>) no_unit_fetches =
       (dew_point_value False 21 50, den\<lparr>fnht := Some False, clcs := Some True\<rparr>)
   \<and> (\<exists>d. dew_point_value False 21 50 = Inr d)"
proof -
  let ?s = "poll_start den den_state den_measurements"
  let ?p = "den\<lparr>fnht := Some False, clcs := Some True\<rparr>"
  note thm1 = room_dew_point_unavailable[of den no_unit_fetches ?s "[]" no_unit_fetches 21 50 False]
  note thm2 = room_dew_point_unavailable[of ?p no_unit_fetches ?s "[]" no_unit_fetches 21 50 False]
  have a: "temperature (temp_fetch no_unit_fetches) = Some 21"
    "humidity (humidity_fetch no_unit_fetches) = Some 50"
    "temperatureUnit (state_fetch no_unit_fetches) = None"
    by (simp_all add: no_unit_fetches_def den_defs)
  have b: "fnht den = None" "fnht ?p = Some False" "self ?s = den"
    by (simp_all add: den_def poll_start_def)
  have c: "(0::real) < 50 \<and> (50::real) \<le> 100 \<and> - 100 \<le> (if False then f2c 21 else (21::real))"
    by simp
  from thm1 a b have 1: "fst (room_dew_point den no_unit_fetches) = Inl AttributeError" by simp
  from thm1 1 b have 2: "hi_dp_event [] no_unit_fetches no_unit_fetches ?s = (?s, None)" by simp
  from thm2 a b have 3: "room_dew_point ?p no_unit_fetches = (dew_point_value False 21 50, ?p)"
    by simp
  from thm2 c have 4: "\<exists>d. dew_point_value False 21 50 = Inr d" by blast
  from 1 2 3 4 show ?thesis by blast
qed

end
